theory Spec2Isabelle
  imports Main
begin

section \<open>Go values used by the key-value service\<close>

text \<open>
  A Go \<^verbatim>\<open>error\<close> is an interface value whose only method is \<^verbatim>\<open>Error() string\<close>.
  Every store error of this repository is built with \<^verbatim>\<open>errors.New(msg)\<close>, and the
  server only compares an error with \<^verbatim>\<open>nil\<close> and reads its message, so an error is
  modelled by its message; a possibly-nil error is an \<open>error option\<close> with \<open>None\<close> for
  \<^verbatim>\<open>nil\<close>.
\<close>

datatype error = errors_New (Error: string)

text \<open>
  Go's two-valued map read \<^verbatim>\<open>v, ok := m[key]\<close>: a missing key reads as the zero value
  of the element type (the empty string) with \<^verbatim>\<open>ok = false\<close>. The one-valued read
  \<^verbatim>\<open>m[key]\<close> is its first component.
\<close>

definition map_index :: "(string \<rightharpoonup> string) \<Rightarrow> string \<Rightarrow> string \<times> bool" where
  "map_index m key = (case m key of None \<Rightarrow> ('''', False) | Some v \<Rightarrow> (v, True))"

section \<open>kvstore: the Storer interface and the in-memory store\<close>

text \<open>
  \<^verbatim>\<open>type Storer interface { Get(key) (string, error); Set(key, value) error;
  Delete(key) error }\<close>. An implementation is a record of its three methods over the
  state \<open>'st\<close> of the receiver; every method returns its Go results together with the
  receiver's state after the call.
\<close>

record 'st Storer =
  Get :: "'st \<Rightarrow> string \<Rightarrow> (string \<times> error option) \<times> 'st"
  Set :: "'st \<Rightarrow> string \<Rightarrow> string \<Rightarrow> error option \<times> 'st"
  Delete :: "'st \<Rightarrow> string \<Rightarrow> error option \<times> 'st"

text \<open>
  \<^verbatim>\<open>type InMemoryStore struct { mutex sync.RWMutex; store map[string]string }\<close>.
  Every method holds the mutex for its whole body, so one call is one atomic step on
  the map; the model is the sequential behaviour of these steps and the mutex field is
  left out. The stores of the model are those made by \<^verbatim>\<open>NewInMemoryStore\<close> and
  changed by the three methods, so the map is an allocated one: the zero value of the
  struct, whose map is nil and on which \<^verbatim>\<open>Set\<close> would panic, is not among them.
\<close>

record InMemoryStore =
  store :: "string \<rightharpoonup> string"

definition NewInMemoryStore :: InMemoryStore where
  "NewInMemoryStore = \<lparr>store = Map.empty\<rparr>"

definition InMemoryStore_Get :: "InMemoryStore \<Rightarrow> string \<Rightarrow> (string \<times> error option) \<times> InMemoryStore" where
  "InMemoryStore_Get s key =
     (let (_, ok) = map_index (store s) key in
      if \<not> ok then (('''', Some (errors_New ''key not found'')), s)
      else ((fst (map_index (store s) key), None), s))"

definition InMemoryStore_Set :: "InMemoryStore \<Rightarrow> string \<Rightarrow> string \<Rightarrow> error option \<times> InMemoryStore" where
  "InMemoryStore_Set s key val = (None, s\<lparr>store := (store s)(key \<mapsto> val)\<rparr>)"

definition InMemoryStore_Delete :: "InMemoryStore \<Rightarrow> string \<Rightarrow> error option \<times> InMemoryStore" where
  "InMemoryStore_Delete s key = (None, s\<lparr>store := (store s)(key := None)\<rparr>)"

text \<open>\<^verbatim>\<open>*InMemoryStore\<close> as a \<^verbatim>\<open>Storer\<close>.\<close>

definition InMemoryStorer :: "InMemoryStore Storer" where
  "InMemoryStorer = \<lparr>Get = InMemoryStore_Get, Set = InMemoryStore_Set, Delete = InMemoryStore_Delete\<rparr>"

section \<open>gRPC status errors and the messages of the service\<close>

text \<open>
  The codes of \<^verbatim>\<open>google.golang.org/grpc/codes\<close>. A non-nil error returned by a
  handler is a status error made by \<^verbatim>\<open>status.Errorf(code, format, args)\<close>: a code and
  the formatted message. The verb \<^verbatim>\<open>%v\<close> applied to an error prints its \<^verbatim>\<open>Error()\<close>.
\<close>

datatype Code = OK | Canceled | Unknown | InvalidArgument | DeadlineExceeded | NotFound
  | AlreadyExists | PermissionDenied | ResourceExhausted | FailedPrecondition | Aborted
  | OutOfRange | Unimplemented | Internal | Unavailable | DataLoss | Unauthenticated

datatype Status = Status (Code: Code) (Message: string)

definition status_Errorf :: "Code \<Rightarrow> string \<Rightarrow> Status" where
  "status_Errorf c msg = Status c msg"

text \<open>
  The request and response messages of package \<^verbatim>\<open>keyvalue\<close>, with the fields the
  server reads and writes. Several messages share field names, so fields are always
  written with the name of their message.
\<close>

record GetRequest =
  Key :: string

record GetResponse =
  Value :: string
  Found :: bool
  Error :: string

record SetRequest =
  Key :: string
  Value :: string

record SetResponse =
  Success :: bool
  Error :: string

record DeleteRequest =
  Key :: string

record DeleteResponse =
  Success :: bool
  Error :: string

section \<open>server: the gRPC KeyValueServer\<close>

text \<open>
  \<^verbatim>\<open>type KeyValueServer struct { store kvstore.Storer }\<close>. A handler takes the
  server's \<^verbatim>\<open>Storer\<close> and the state of that store, and returns the Go result pair
  \<^verbatim>\<open>(*Response, error)\<close> as a sum (\<open>Inl\<close> the status error, returned with a nil
  response; \<open>Inr\<close> the response, returned with a nil error) together with the state of
  the store after the request.
\<close>

definition KeyValueServer_Get :: "'st Storer \<Rightarrow> 'st \<Rightarrow> GetRequest \<Rightarrow> (Status + GetResponse) \<times> 'st" where
  "KeyValueServer_Get S st req =
     (if GetRequest.Key req = '''' then
        (Inl (status_Errorf InvalidArgument ''key cannot be empty''), st)
      else
        let ((val, err), st') = Get S st (GetRequest.Key req) in
        (case err of
           Some e \<Rightarrow>
             if error.Error e = ''key not found'' then
               (Inr \<lparr>GetResponse.Value = '''', GetResponse.Found = False, GetResponse.Error = ''''\<rparr>, st')
             else
               (Inl (status_Errorf Internal (''service failed to get value: '' @ error.Error e)), st')
         | None \<Rightarrow>
             (Inr \<lparr>GetResponse.Value = val, GetResponse.Found = True, GetResponse.Error = ''''\<rparr>, st')))"

definition KeyValueServer_Set :: "'st Storer \<Rightarrow> 'st \<Rightarrow> SetRequest \<Rightarrow> (Status + SetResponse) \<times> 'st" where
  "KeyValueServer_Set S st req =
     (if SetRequest.Key req = '''' then
        (Inl (status_Errorf InvalidArgument ''key cannot be empty''), st)
      else
        let (err, st') = Set S st (SetRequest.Key req) (SetRequest.Value req) in
        (case err of
           Some e \<Rightarrow>
             (Inr \<lparr>SetResponse.Success = False, SetResponse.Error = error.Error e\<rparr>, st')
         | None \<Rightarrow>
             (Inr \<lparr>SetResponse.Success = True, SetResponse.Error = ''''\<rparr>, st')))"

definition KeyValueServer_Delete :: "'st Storer \<Rightarrow> 'st \<Rightarrow> DeleteRequest \<Rightarrow> (Status + DeleteResponse) \<times> 'st" where
  "KeyValueServer_Delete S st req =
     (if DeleteRequest.Key req = '''' then
        (Inl (status_Errorf InvalidArgument ''key cannot be empty''), st)
      else
        let (err, st') = Delete S st (DeleteRequest.Key req) in
        (case err of
           Some e \<Rightarrow>
             (Inr \<lparr>DeleteResponse.Success = False, DeleteResponse.Error = error.Error e\<rparr>, st')
         | None \<Rightarrow>
             (Inr \<lparr>DeleteResponse.Success = True, DeleteResponse.Error = ''''\<rparr>, st')))"

section \<open>Substitute stores\<close>

text \<open>
  \<^verbatim>\<open>MockStorer\<close> of the server's tests: three optional closures; a method calls its
  closure when it is set and otherwise returns a fixed default. The closures of the
  tests read and write nothing, so a call leaves the mock as it was.
\<close>

record MockStorer =
  GetFunc :: "(string \<Rightarrow> string \<times> error option) option"
  SetFunc :: "(string \<Rightarrow> string \<Rightarrow> error option) option"
  DeleteFunc :: "(string \<Rightarrow> error option) option"

definition MockStorer_Get :: "MockStorer \<Rightarrow> string \<Rightarrow> (string \<times> error option) \<times> MockStorer" where
  "MockStorer_Get m key =
     (case GetFunc m of Some f \<Rightarrow> (f key, m) | None \<Rightarrow> ((''mock-value'', None), m))"

definition MockStorer_Set :: "MockStorer \<Rightarrow> string \<Rightarrow> string \<Rightarrow> error option \<times> MockStorer" where
  "MockStorer_Set m key val =
     (case SetFunc m of Some f \<Rightarrow> (f key val, m) | None \<Rightarrow> (None, m))"

definition MockStorer_Delete :: "MockStorer \<Rightarrow> string \<Rightarrow> error option \<times> MockStorer" where
  "MockStorer_Delete m key =
     (case DeleteFunc m of Some f \<Rightarrow> (f key, m) | None \<Rightarrow> (None, m))"

definition MockStorerI :: "MockStorer Storer" where
  "MockStorerI = \<lparr>Get = MockStorer_Get, Set = MockStorer_Set, Delete = MockStorer_Delete\<rparr>"

text \<open>
  The mocks that the \<^verbatim>\<open>store error\<close> cases of the server's tests set up: a store
  whose \<^verbatim>\<open>Get\<close> fails with \<^verbatim>\<open>connection failed\<close>, and a store whose \<^verbatim>\<open>Set\<close> fails
  with \<^verbatim>\<open>storage failed\<close> and whose \<^verbatim>\<open>Delete\<close> fails with \<^verbatim>\<open>delete failed\<close>.
\<close>

definition mock_connection_failed :: MockStorer where
  "mock_connection_failed =
     \<lparr>GetFunc = Some (\<lambda>key. ('''', Some (errors_New ''connection failed''))),
      SetFunc = None, DeleteFunc = None\<rparr>"

definition mock_write_failed :: MockStorer where
  "mock_write_failed =
     \<lparr>GetFunc = None,
      SetFunc = Some (\<lambda>key val. Some (errors_New ''storage failed'')),
      DeleteFunc = Some (\<lambda>key. Some (errors_New ''delete failed''))\<rparr>"

text \<open>
  Which store operations a request invokes is observed with a recording store: it
  forwards every call to the store \<open>S\<close> it wraps and appends the call, with its
  arguments and its result, to a log kept beside the state of \<open>S\<close>. A handler run on
  \<open>Recording S\<close> leaves in the log exactly the store calls it made, in order.
\<close>

datatype StoreCall =
    GetCall string "string \<times> error option"
  | SetCall string string "error option"
  | DeleteCall string "error option"

definition Recording :: "'st Storer \<Rightarrow> ('st \<times> StoreCall list) Storer" where
  "Recording S =
     \<lparr>Get = (\<lambda>(st, calls) key.
              let (r, st') = Get S st key in (r, (st', calls @ [GetCall key r]))),
      Set = (\<lambda>(st, calls) key val.
              let (r, st') = Set S st key val in (r, (st', calls @ [SetCall key val r]))),
      Delete = (\<lambda>(st, calls) key.
              let (r, st') = Delete S st key in (r, (st', calls @ [DeleteCall key r])))\<rparr>"

section \<open>Properties of the in-memory store\<close>

lemma InMemoryStore_Get_absent:
  "store s key = None \<Longrightarrow> InMemoryStore_Get s key = (('''', Some (errors_New ''key not found'')), s)"
  by (simp add: InMemoryStore_Get_def map_index_def)

lemma InMemoryStore_Get_present:
  "store s key = Some v \<Longrightarrow> InMemoryStore_Get s key = ((v, None), s)"
  by (simp add: InMemoryStore_Get_def map_index_def)

text \<open>
  A run of \<^verbatim>\<open>Set\<close> calls on one key, taken one after the other in any order, changes
  only that key and leaves it bound to the value of the last call of the run.
\<close>

lemma Set_sequence_last:
  "vs \<noteq> [] \<Longrightarrow>
   store (foldl (\<lambda>s v. snd (InMemoryStore_Set s k v)) s vs) = (store s)(k \<mapsto> last vs)"
proof (induction vs arbitrary: s)
  case Nil
  then show ?case by simp
next
  case (Cons v vs)
  show ?case
  proof (cases "vs = []")
    case True
    then show ?thesis by (simp add: InMemoryStore_Set_def)
  next
    case False
    with Cons.IH [of "snd (InMemoryStore_Set s k v)"] show ?thesis
      by (auto simp: InMemoryStore_Set_def)
  qed
qed

text \<open>
  Claim C7 says that the store's own \<^verbatim>\<open>Get\<close> never returns an error, for any key
  including the empty one, and that absence is signalled by a presence flag. The method
  has no presence flag: its results are \<^verbatim>\<open>(string, error)\<close>, and on a fresh store the
  empty key is answered with the error \<^verbatim>\<open>key not found\<close>, as the store's own test
  table expects.
\<close>

theorem store_Get_empty_key_returns_error:
  "snd (fst (InMemoryStore_Get NewInMemoryStore '''')) = Some (errors_New ''key not found'')"
  by (simp add: InMemoryStore_Get_def map_index_def NewInMemoryStore_def)

text \<open>
  Claim C7 as the code has it: for every key and every store, \<^verbatim>\<open>Get\<close> places no
  restriction on the key and leaves the store as it was; a present key is answered with
  its value and a nil error, an absent key with the empty string and the error
  \<^verbatim>\<open>key not found\<close>. So \<^verbatim>\<open>Get\<close> returns an error exactly when the key is absent.
\<close>

theorem store_Get_error_iff_absent:
  "InMemoryStore_Get s key =
     (case store s key of
        Some v \<Rightarrow> ((v, None), s)
      | None \<Rightarrow> (('''', Some (errors_New ''key not found'')), s)) \<and>
   (snd (fst (InMemoryStore_Get s key)) = None) = (key \<in> dom (store s))"
  by (simp add: InMemoryStore_Get_def map_index_def dom_def split: option.splits)

text \<open>
  Claim C10 (frame): for keys \<open>k \<noteq> k'\<close>, \<^verbatim>\<open>Delete(k)\<close> leaves the binding of \<open>k'\<close> as
  it was, and \<^verbatim>\<open>Get(k)\<close> leaves the whole store as it was. The same frame holds for
  \<^verbatim>\<open>Set(k, v)\<close>: each operation touches at most the key it names.
\<close>

theorem store_operations_frame:
  "(k \<noteq> k' \<longrightarrow> store (snd (InMemoryStore_Delete s k)) k' = store s k') \<and>
   snd (InMemoryStore_Get s k) = s \<and>
   (k \<noteq> k' \<longrightarrow> store (snd (InMemoryStore_Set s k v)) k' = store s k')"
  by (simp add: InMemoryStore_Delete_def InMemoryStore_Set_def InMemoryStore_Get_def map_index_def
      split: option.splits)

theorem store_operations_frame_witness:
  "''key_to_delete'' \<noteq> ''another_key'' \<and>
   store (snd (InMemoryStore_Delete
      \<lparr>store = [''key_to_delete'' \<mapsto> ''value'', ''another_key'' \<mapsto> ''another_value'']\<rparr>
      ''key_to_delete'')) ''another_key'' = Some ''another_value'' \<and>
   snd (InMemoryStore_Get
      \<lparr>store = [''key_to_delete'' \<mapsto> ''value'', ''another_key'' \<mapsto> ''another_value'']\<rparr>
      ''key_to_delete'')
     = \<lparr>store = [''key_to_delete'' \<mapsto> ''value'', ''another_key'' \<mapsto> ''another_value'']\<rparr> \<and>
   store (snd (InMemoryStore_Set
      \<lparr>store = [''key_to_delete'' \<mapsto> ''value'', ''another_key'' \<mapsto> ''another_value'']\<rparr>
      ''key_to_delete'' ''x'')) ''another_key'' = Some ''another_value''"
  using store_operations_frame [of "''key_to_delete''" "''another_key''"
      "\<lparr>store = [''key_to_delete'' \<mapsto> ''value'', ''another_key'' \<mapsto> ''another_value'']\<rparr>" "''x''"]
  by simp

section \<open>The server on the in-memory store\<close>

text \<open>
  What each handler does when the server's store is the in-memory store and the key is
  not empty.
\<close>

lemma KeyValueServer_Get_InMemory:
  "k \<noteq> '''' \<Longrightarrow>
   KeyValueServer_Get InMemoryStorer s \<lparr>GetRequest.Key = k\<rparr> =
     (case store s k of
        None \<Rightarrow>
          (Inr \<lparr>GetResponse.Value = '''', GetResponse.Found = False, GetResponse.Error = ''''\<rparr>, s)
      | Some v \<Rightarrow>
          (Inr \<lparr>GetResponse.Value = v, GetResponse.Found = True, GetResponse.Error = ''''\<rparr>, s))"
  by (simp add: KeyValueServer_Get_def InMemoryStorer_def InMemoryStore_Get_def map_index_def
      split: option.splits)

lemma KeyValueServer_Set_InMemory:
  "k \<noteq> '''' \<Longrightarrow>
   KeyValueServer_Set InMemoryStorer s \<lparr>SetRequest.Key = k, SetRequest.Value = v\<rparr> =
     (Inr \<lparr>SetResponse.Success = True, SetResponse.Error = ''''\<rparr>,
      s\<lparr>store := (store s)(k \<mapsto> v)\<rparr>)"
  by (simp add: KeyValueServer_Set_def InMemoryStorer_def InMemoryStore_Set_def)

lemma KeyValueServer_Delete_InMemory:
  "k \<noteq> '''' \<Longrightarrow>
   KeyValueServer_Delete InMemoryStorer s \<lparr>DeleteRequest.Key = k\<rparr> =
     (Inr \<lparr>DeleteResponse.Success = True, DeleteResponse.Error = ''''\<rparr>,
      s\<lparr>store := (store s)(k := None)\<rparr>)"
  by (simp add: KeyValueServer_Delete_def InMemoryStorer_def InMemoryStore_Delete_def)

text \<open>
  Claim C3: for every non-empty key that the store does not hold, the server's
  \<^verbatim>\<open>Get\<close> returns a response and no error, with the empty value and
  \<^verbatim>\<open>Found = false\<close>; the store is left as it was.
\<close>

theorem gateway_Get_absent_key:
  "k \<noteq> '''' \<Longrightarrow> store s k = None \<Longrightarrow>
   KeyValueServer_Get InMemoryStorer s \<lparr>GetRequest.Key = k\<rparr> =
     (Inr \<lparr>GetResponse.Value = '''', GetResponse.Found = False, GetResponse.Error = ''''\<rparr>, s)"
  by (simp add: KeyValueServer_Get_InMemory)

theorem gateway_Get_absent_key_witness:
  "''missing-key'' \<noteq> '''' \<and> store NewInMemoryStore ''missing-key'' = None \<and>
   KeyValueServer_Get InMemoryStorer NewInMemoryStore \<lparr>GetRequest.Key = ''missing-key''\<rparr> =
     (Inr \<lparr>GetResponse.Value = '''', GetResponse.Found = False, GetResponse.Error = ''''\<rparr>,
      NewInMemoryStore)"
  using gateway_Get_absent_key [of "''missing-key''" NewInMemoryStore]
  by (simp add: NewInMemoryStore_def)

text \<open>
  Claim C4 (overwrite): after \<^verbatim>\<open>Set(k, v1)\<close> and then \<^verbatim>\<open>Set(k, v2)\<close>, \<^verbatim>\<open>Get(k)\<close>
  observes \<open>v2\<close> as present. On the store itself this holds for every key, the empty
  one included: \<^verbatim>\<open>Get\<close> returns \<open>v2\<close> with a nil error, which is how the store reports
  presence. Through the server it holds for every non-empty key: the response carries
  \<open>v2\<close> and \<^verbatim>\<open>Found = true\<close>.
\<close>

theorem Set_Set_Get_latest:
  "(let s1 = snd (InMemoryStore_Set s k v1);
        s2 = snd (InMemoryStore_Set s1 k v2)
    in InMemoryStore_Get s2 k = ((v2, None), s2)) \<and>
   (k \<noteq> '''' \<longrightarrow>
    (let s1 = snd (KeyValueServer_Set InMemoryStorer s \<lparr>SetRequest.Key = k, SetRequest.Value = v1\<rparr>);
         s2 = snd (KeyValueServer_Set InMemoryStorer s1 \<lparr>SetRequest.Key = k, SetRequest.Value = v2\<rparr>)
     in KeyValueServer_Get InMemoryStorer s2 \<lparr>GetRequest.Key = k\<rparr> =
          (Inr \<lparr>GetResponse.Value = v2, GetResponse.Found = True, GetResponse.Error = ''''\<rparr>, s2)))"
  by (simp add: Let_def InMemoryStore_Set_def InMemoryStore_Get_present
      KeyValueServer_Set_InMemory KeyValueServer_Get_InMemory)

theorem Set_Set_Get_latest_witness:
  "''key1'' \<noteq> '''' \<and>
   InMemoryStore_Get
     (snd (InMemoryStore_Set (snd (InMemoryStore_Set NewInMemoryStore ''key1'' ''value1''))
        ''key1'' ''new_value1'')) ''key1''
     = ((''new_value1'', None), \<lparr>store = [''key1'' \<mapsto> ''new_value1'']\<rparr>) \<and>
   KeyValueServer_Get InMemoryStorer
     (snd (KeyValueServer_Set InMemoryStorer
        (snd (KeyValueServer_Set InMemoryStorer NewInMemoryStore
               \<lparr>SetRequest.Key = ''key1'', SetRequest.Value = ''value1''\<rparr>))
        \<lparr>SetRequest.Key = ''key1'', SetRequest.Value = ''new_value1''\<rparr>))
     \<lparr>GetRequest.Key = ''key1''\<rparr> =
     (Inr \<lparr>GetResponse.Value = ''new_value1'', GetResponse.Found = True, GetResponse.Error = ''''\<rparr>,
      \<lparr>store = [''key1'' \<mapsto> ''new_value1'']\<rparr>)"
  using Set_Set_Get_latest [of NewInMemoryStore "''key1''" "''value1''" "''new_value1''"]
  by (simp add: Let_def NewInMemoryStore_def InMemoryStore_Set_def KeyValueServer_Set_def
      InMemoryStorer_def)

text \<open>
  Claim C5 (idempotence of Delete): on the store, \<^verbatim>\<open>Delete\<close> of a key that is not
  present returns a nil error and the store as it was; for every store and key,
  \<^verbatim>\<open>Delete\<close> returns a nil error and a second \<^verbatim>\<open>Delete\<close> of the same key returns a
  nil error and the state the first one left. Through the server, deleting a non-empty
  absent key answers \<^verbatim>\<open>Success = true\<close> and leaves the store as it was.
\<close>

theorem Delete_absent_noop_idempotent:
  "(store s k = None \<longrightarrow> InMemoryStore_Delete s k = (None, s)) \<and>
   (let s1 = snd (InMemoryStore_Delete s k)
    in fst (InMemoryStore_Delete s k) = None \<and> InMemoryStore_Delete s1 k = (None, s1)) \<and>
   (k \<noteq> '''' \<and> store s k = None \<longrightarrow>
      KeyValueServer_Delete InMemoryStorer s \<lparr>DeleteRequest.Key = k\<rparr> =
        (Inr \<lparr>DeleteResponse.Success = True, DeleteResponse.Error = ''''\<rparr>, s))"
  by (simp add: Let_def InMemoryStore_Delete_def fun_upd_idem KeyValueServer_Delete_InMemory)

theorem Delete_absent_noop_idempotent_witness:
  "store NewInMemoryStore ''non_existing'' = None \<and> ''non_existing'' \<noteq> '''' \<and>
   InMemoryStore_Delete NewInMemoryStore ''non_existing'' = (None, NewInMemoryStore) \<and>
   InMemoryStore_Delete (snd (InMemoryStore_Delete NewInMemoryStore ''non_existing''))
     ''non_existing'' = (None, NewInMemoryStore) \<and>
   KeyValueServer_Delete InMemoryStorer NewInMemoryStore \<lparr>DeleteRequest.Key = ''non_existing''\<rparr> =
     (Inr \<lparr>DeleteResponse.Success = True, DeleteResponse.Error = ''''\<rparr>, NewInMemoryStore)"
  using Delete_absent_noop_idempotent [of NewInMemoryStore "''non_existing''"]
  by (simp add: Let_def NewInMemoryStore_def)

text \<open>
  Claim C6 (the empty value): for every non-empty key \<open>k\<close>, after \<^verbatim>\<open>Set(k, "")\<close>
  through the server, \<^verbatim>\<open>Get(k)\<close> answers the empty value with \<^verbatim>\<open>Found = true\<close>. A key
  the store does not hold is answered with the same empty value and
  \<^verbatim>\<open>Found = false\<close>, so only the flag tells the two apart. On the store itself,
  \<^verbatim>\<open>Get\<close> after \<^verbatim>\<open>Set(k, "")\<close> returns the empty string with a nil error.
\<close>

theorem empty_value_is_found:
  "k \<noteq> '''' \<Longrightarrow>
   (let s1 = snd (KeyValueServer_Set InMemoryStorer s \<lparr>SetRequest.Key = k, SetRequest.Value = ''''\<rparr>)
    in KeyValueServer_Get InMemoryStorer s1 \<lparr>GetRequest.Key = k\<rparr> =
         (Inr \<lparr>GetResponse.Value = '''', GetResponse.Found = True, GetResponse.Error = ''''\<rparr>, s1)) \<and>
   (store s k = None \<longrightarrow>
      KeyValueServer_Get InMemoryStorer s \<lparr>GetRequest.Key = k\<rparr> =
         (Inr \<lparr>GetResponse.Value = '''', GetResponse.Found = False, GetResponse.Error = ''''\<rparr>, s)) \<and>
   InMemoryStore_Get (snd (InMemoryStore_Set s k '''')) k =
     (('''', None), snd (InMemoryStore_Set s k ''''))"
  by (simp add: Let_def InMemoryStore_Set_def InMemoryStore_Get_present
      KeyValueServer_Set_InMemory KeyValueServer_Get_InMemory)

theorem empty_value_is_found_witness:
  "''b'' \<noteq> '''' \<and> store NewInMemoryStore ''b'' = None \<and>
   KeyValueServer_Get InMemoryStorer
     (snd (KeyValueServer_Set InMemoryStorer NewInMemoryStore
        \<lparr>SetRequest.Key = ''b'', SetRequest.Value = ''''\<rparr>))
     \<lparr>GetRequest.Key = ''b''\<rparr> =
     (Inr \<lparr>GetResponse.Value = '''', GetResponse.Found = True, GetResponse.Error = ''''\<rparr>,
      \<lparr>store = [''b'' \<mapsto> '''']\<rparr>) \<and>
   KeyValueServer_Get InMemoryStorer NewInMemoryStore \<lparr>GetRequest.Key = ''b''\<rparr> =
     (Inr \<lparr>GetResponse.Value = '''', GetResponse.Found = False, GetResponse.Error = ''''\<rparr>,
      NewInMemoryStore)"
  using empty_value_is_found [of "''b''" NewInMemoryStore]
  by (simp add: Let_def NewInMemoryStore_def InMemoryStore_Set_def KeyValueServer_Set_def
      InMemoryStorer_def)

section \<open>The server on an arbitrary store\<close>

text \<open>
  A handler run on the recording store: the response and the wrapped store's state
  are those of the handler run on the wrapped store, and the log grows by the one
  call the handler makes, or not at all when the key is empty.
\<close>

lemma KeyValueServer_Get_Recording:
  "KeyValueServer_Get (Recording S) (st, calls) req =
     (if GetRequest.Key req = '''' then
        (Inl (Status InvalidArgument ''key cannot be empty''), (st, calls))
      else
        (fst (KeyValueServer_Get S st req),
         (snd (KeyValueServer_Get S st req),
          calls @ [GetCall (GetRequest.Key req) (fst (Get S st (GetRequest.Key req)))])))"
  by (simp add: KeyValueServer_Get_def Recording_def status_Errorf_def
      split: prod.splits option.splits)

lemma KeyValueServer_Set_Recording:
  "KeyValueServer_Set (Recording S) (st, calls) req =
     (if SetRequest.Key req = '''' then
        (Inl (Status InvalidArgument ''key cannot be empty''), (st, calls))
      else
        (fst (KeyValueServer_Set S st req),
         (snd (KeyValueServer_Set S st req),
          calls @ [SetCall (SetRequest.Key req) (SetRequest.Value req)
                     (fst (Set S st (SetRequest.Key req) (SetRequest.Value req)))])))"
  by (simp add: KeyValueServer_Set_def Recording_def status_Errorf_def
      split: prod.splits option.splits)

lemma KeyValueServer_Delete_Recording:
  "KeyValueServer_Delete (Recording S) (st, calls) req =
     (if DeleteRequest.Key req = '''' then
        (Inl (Status InvalidArgument ''key cannot be empty''), (st, calls))
      else
        (fst (KeyValueServer_Delete S st req),
         (snd (KeyValueServer_Delete S st req),
          calls @ [DeleteCall (DeleteRequest.Key req) (fst (Delete S st (DeleteRequest.Key req)))])))"
  by (simp add: KeyValueServer_Delete_def Recording_def status_Errorf_def
      split: prod.splits option.splits)

lemma KeyValueServer_Set_store_error:
  "SetRequest.Key req \<noteq> '''' \<Longrightarrow>
   Set S st (SetRequest.Key req) (SetRequest.Value req) = (Some e, st') \<Longrightarrow>
   KeyValueServer_Set S st req =
     (Inr \<lparr>SetResponse.Success = False, SetResponse.Error = error.Error e\<rparr>, st')"
  by (simp add: KeyValueServer_Set_def)

lemma KeyValueServer_Delete_store_error:
  "DeleteRequest.Key req \<noteq> '''' \<Longrightarrow>
   Delete S st (DeleteRequest.Key req) = (Some e, st') \<Longrightarrow>
   KeyValueServer_Delete S st req =
     (Inr \<lparr>DeleteResponse.Success = False, DeleteResponse.Error = error.Error e\<rparr>, st')"
  by (simp add: KeyValueServer_Delete_def)

text \<open>
  Claim C1: whenever the store's \<^verbatim>\<open>Set\<close> (or \<^verbatim>\<open>Delete\<close>) returns an error to the
  server, the server's \<^verbatim>\<open>Set\<close> (or \<^verbatim>\<open>Delete\<close>) returns a response and no status
  error, with \<^verbatim>\<open>Success = false\<close> and \<^verbatim>\<open>Error\<close> equal to the message of the store's
  error. This is stated twice, for every store \<open>S\<close> and state \<open>st\<close>. First for every
  request, whatever its key: if the calls that the handler made on the store include a
  \<^verbatim>\<open>Set\<close> (a \<^verbatim>\<open>Delete\<close>) that returned the error \<open>e\<close>, the response is the one
  described. Then for every request with a non-empty key, the only ones for which the
  store is called: if the store's \<^verbatim>\<open>Set\<close> (\<^verbatim>\<open>Delete\<close>) on the request's arguments
  returns the error \<open>e'\<close>, the handler returns the response described together with the
  state the store left.
\<close>

theorem store_write_error_is_payload:
  "(KeyValueServer_Set (Recording S) (st, []) req = (out, (st', calls)) \<and>
      SetCall k v (Some e) \<in> set calls \<longrightarrow>
      out = Inr \<lparr>SetResponse.Success = False, SetResponse.Error = error.Error e\<rparr>) \<and>
   (KeyValueServer_Delete (Recording S) (st, []) dreq = (dout, (dst', dcalls)) \<and>
      DeleteCall dk (Some de) \<in> set dcalls \<longrightarrow>
      dout = Inr \<lparr>DeleteResponse.Success = False, DeleteResponse.Error = error.Error de\<rparr>) \<and>
   (SetRequest.Key req \<noteq> '''' \<and>
      Set S st (SetRequest.Key req) (SetRequest.Value req) = (Some e', st'') \<longrightarrow>
      KeyValueServer_Set S st req =
        (Inr \<lparr>SetResponse.Success = False, SetResponse.Error = error.Error e'\<rparr>, st'')) \<and>
   (DeleteRequest.Key dreq \<noteq> '''' \<and>
      Delete S st (DeleteRequest.Key dreq) = (Some de', dst'') \<longrightarrow>
      KeyValueServer_Delete S st dreq =
        (Inr \<lparr>DeleteResponse.Success = False, DeleteResponse.Error = error.Error de'\<rparr>, dst''))"
proof (intro conjI impI)
  assume a: "KeyValueServer_Set (Recording S) (st, []) req = (out, (st', calls)) \<and>
      SetCall k v (Some e) \<in> set calls"
  show "out = Inr \<lparr>SetResponse.Success = False, SetResponse.Error = error.Error e\<rparr>"
  proof (cases "SetRequest.Key req = ''''")
    case True
    with a show ?thesis by (auto simp: KeyValueServer_Set_Recording)
  next
    case False
    with a have r: "fst (Set S st (SetRequest.Key req) (SetRequest.Value req)) = Some e"
      and o: "out = fst (KeyValueServer_Set S st req)"
      by (auto simp: KeyValueServer_Set_Recording)
    from r have "Set S st (SetRequest.Key req) (SetRequest.Value req) =
        (Some e, snd (Set S st (SetRequest.Key req) (SetRequest.Value req)))"
      by (simp add: prod_eq_iff)
    with False o show ?thesis by (simp add: KeyValueServer_Set_store_error)
  qed
next
  assume a: "KeyValueServer_Delete (Recording S) (st, []) dreq = (dout, (dst', dcalls)) \<and>
      DeleteCall dk (Some de) \<in> set dcalls"
  show "dout = Inr \<lparr>DeleteResponse.Success = False, DeleteResponse.Error = error.Error de\<rparr>"
  proof (cases "DeleteRequest.Key dreq = ''''")
    case True
    with a show ?thesis by (auto simp: KeyValueServer_Delete_Recording)
  next
    case False
    with a have r: "fst (Delete S st (DeleteRequest.Key dreq)) = Some de"
      and o: "dout = fst (KeyValueServer_Delete S st dreq)"
      by (auto simp: KeyValueServer_Delete_Recording)
    from r have "Delete S st (DeleteRequest.Key dreq) =
        (Some de, snd (Delete S st (DeleteRequest.Key dreq)))"
      by (simp add: prod_eq_iff)
    with False o show ?thesis by (simp add: KeyValueServer_Delete_store_error)
  qed
next
  assume "SetRequest.Key req \<noteq> '''' \<and>
      Set S st (SetRequest.Key req) (SetRequest.Value req) = (Some e', st'')"
  then show "KeyValueServer_Set S st req =
      (Inr \<lparr>SetResponse.Success = False, SetResponse.Error = error.Error e'\<rparr>, st'')"
    by (simp add: KeyValueServer_Set_store_error)
next
  assume "DeleteRequest.Key dreq \<noteq> '''' \<and>
      Delete S st (DeleteRequest.Key dreq) = (Some de', dst'')"
  then show "KeyValueServer_Delete S st dreq =
      (Inr \<lparr>DeleteResponse.Success = False, DeleteResponse.Error = error.Error de'\<rparr>, dst'')"
    by (simp add: KeyValueServer_Delete_store_error)
qed

theorem store_write_error_is_payload_witness:
  "KeyValueServer_Set (Recording MockStorerI) (mock_write_failed, [])
       \<lparr>SetRequest.Key = ''test-key'', SetRequest.Value = ''test-value''\<rparr> =
     (Inr \<lparr>SetResponse.Success = False, SetResponse.Error = ''storage failed''\<rparr>,
      (mock_write_failed,
       [SetCall ''test-key'' ''test-value'' (Some (errors_New ''storage failed''))])) \<and>
   KeyValueServer_Delete (Recording MockStorerI) (mock_write_failed, [])
       \<lparr>DeleteRequest.Key = ''test-key''\<rparr> =
     (Inr \<lparr>DeleteResponse.Success = False, DeleteResponse.Error = ''delete failed''\<rparr>,
      (mock_write_failed, [DeleteCall ''test-key'' (Some (errors_New ''delete failed''))])) \<and>
   Set MockStorerI mock_write_failed ''test-key'' ''test-value'' =
     (Some (errors_New ''storage failed''), mock_write_failed) \<and>
   Delete MockStorerI mock_write_failed ''test-key'' =
     (Some (errors_New ''delete failed''), mock_write_failed) \<and>
   KeyValueServer_Set MockStorerI mock_write_failed
       \<lparr>SetRequest.Key = ''test-key'', SetRequest.Value = ''test-value''\<rparr> =
     (Inr \<lparr>SetResponse.Success = False, SetResponse.Error = ''storage failed''\<rparr>,
      mock_write_failed) \<and>
   KeyValueServer_Delete MockStorerI mock_write_failed \<lparr>DeleteRequest.Key = ''test-key''\<rparr> =
     (Inr \<lparr>DeleteResponse.Success = False, DeleteResponse.Error = ''delete failed''\<rparr>,
      mock_write_failed)"
proof -
  let ?sreq = "\<lparr>SetRequest.Key = ''test-key'', SetRequest.Value = ''test-value''\<rparr>"
  let ?dreq = "\<lparr>DeleteRequest.Key = ''test-key''\<rparr>"
  let ?se = "errors_New ''storage failed''"
  let ?de = "errors_New ''delete failed''"
  have s: "Set MockStorerI mock_write_failed ''test-key'' ''test-value'' =
      (Some ?se, mock_write_failed)"
    by (simp add: MockStorerI_def MockStorer_Set_def mock_write_failed_def)
  have d: "Delete MockStorerI mock_write_failed ''test-key'' = (Some ?de, mock_write_failed)"
    by (simp add: MockStorerI_def MockStorer_Delete_def mock_write_failed_def)
  have rs: "snd (KeyValueServer_Set (Recording MockStorerI) (mock_write_failed, []) ?sreq) =
      (mock_write_failed, [SetCall ''test-key'' ''test-value'' (Some ?se)])"
    using s by (simp add: KeyValueServer_Set_def Recording_def)
  have rd: "snd (KeyValueServer_Delete (Recording MockStorerI) (mock_write_failed, []) ?dreq) =
      (mock_write_failed, [DeleteCall ''test-key'' (Some ?de)])"
    using d by (simp add: KeyValueServer_Delete_def Recording_def)
  show ?thesis
    using store_write_error_is_payload [where S = MockStorerI and st = mock_write_failed
        and req = ?sreq
        and out = "fst (KeyValueServer_Set (Recording MockStorerI) (mock_write_failed, []) ?sreq)"
        and st' = mock_write_failed
        and calls = "[SetCall ''test-key'' ''test-value'' (Some ?se)]"
        and k = "''test-key''" and v = "''test-value''" and e = ?se
        and dreq = ?dreq
        and dout = "fst (KeyValueServer_Delete (Recording MockStorerI) (mock_write_failed, []) ?dreq)"
        and dst' = mock_write_failed
        and dcalls = "[DeleteCall ''test-key'' (Some ?de)]"
        and dk = "''test-key''" and de = ?de
        and e' = ?se and st'' = mock_write_failed
        and de' = ?de and dst'' = mock_write_failed]
      s d rs rd
    by (simp add: prod_eq_iff)
qed

text \<open>
  Claim C2 (validation precedence): a request whose key is empty is rejected by
  \<^verbatim>\<open>Get\<close>, \<^verbatim>\<open>Set\<close> and \<^verbatim>\<open>Delete\<close> alike with the status code \<^verbatim>\<open>InvalidArgument\<close>,
  and no store operation is invoked: on the recording wrapper of any store \<open>S\<close>, the
  state of \<open>S\<close> and the log of calls are those from before the request. In particular,
  when the server's store is the in-memory store, its mapping is the one from before
  the request.
\<close>

theorem empty_key_rejected_before_store:
  "KeyValueServer_Get (Recording S) (st, calls) \<lparr>GetRequest.Key = ''''\<rparr> =
     (Inl (Status InvalidArgument ''key cannot be empty''), (st, calls)) \<and>
   KeyValueServer_Set (Recording S) (st, calls) \<lparr>SetRequest.Key = '''', SetRequest.Value = v\<rparr> =
     (Inl (Status InvalidArgument ''key cannot be empty''), (st, calls)) \<and>
   KeyValueServer_Delete (Recording S) (st, calls) \<lparr>DeleteRequest.Key = ''''\<rparr> =
     (Inl (Status InvalidArgument ''key cannot be empty''), (st, calls)) \<and>
   KeyValueServer_Get InMemoryStorer s \<lparr>GetRequest.Key = ''''\<rparr> =
     (Inl (Status InvalidArgument ''key cannot be empty''), s) \<and>
   KeyValueServer_Set InMemoryStorer s \<lparr>SetRequest.Key = '''', SetRequest.Value = v\<rparr> =
     (Inl (Status InvalidArgument ''key cannot be empty''), s) \<and>
   KeyValueServer_Delete InMemoryStorer s \<lparr>DeleteRequest.Key = ''''\<rparr> =
     (Inl (Status InvalidArgument ''key cannot be empty''), s)"
  by (simp add: KeyValueServer_Get_def KeyValueServer_Set_def KeyValueServer_Delete_def
      status_Errorf_def)

text \<open>
  Claim C8: for every non-empty key, if the store's \<^verbatim>\<open>Get\<close> returns an error whose
  message is not \<^verbatim>\<open>key not found\<close>, the server's \<^verbatim>\<open>Get\<close> returns a status error with
  the code \<^verbatim>\<open>Internal\<close>, and neither a not-found response nor a response with a value.
  This holds for every store \<open>S\<close>.
\<close>

theorem gateway_Get_other_error_is_Internal:
  "k \<noteq> '''' \<Longrightarrow> Get S st k = ((v, Some e), st') \<Longrightarrow> error.Error e \<noteq> ''key not found'' \<Longrightarrow>
   KeyValueServer_Get S st \<lparr>GetRequest.Key = k\<rparr> =
     (Inl (Status Internal (''service failed to get value: '' @ error.Error e)), st')"
  by (simp add: KeyValueServer_Get_def status_Errorf_def)

theorem gateway_Get_other_error_is_Internal_witness:
  "''error-key'' \<noteq> '''' \<and>
   Get MockStorerI mock_connection_failed ''error-key'' =
     (('''', Some (errors_New ''connection failed'')), mock_connection_failed) \<and>
   error.Error (errors_New ''connection failed'') \<noteq> ''key not found'' \<and>
   KeyValueServer_Get MockStorerI mock_connection_failed \<lparr>GetRequest.Key = ''error-key''\<rparr> =
     (Inl (Status Internal ''service failed to get value: connection failed''),
      mock_connection_failed)"
proof -
  have g: "Get MockStorerI mock_connection_failed ''error-key'' =
      (('''', Some (errors_New ''connection failed'')), mock_connection_failed)"
    by (simp add: MockStorerI_def MockStorer_Get_def mock_connection_failed_def)
  show ?thesis
    using g gateway_Get_other_error_is_Internal [of "''error-key''" MockStorerI
        mock_connection_failed "''''" "errors_New ''connection failed''" mock_connection_failed]
    by simp
qed

end
